theory Spec2Isabelle
  imports Main "HOL-Library.AList"
begin

section \<open>The JIRA module (plugins/modules/web\_infrastructure/jira.py)\<close>

text \<open>
  A shallow embedding of the module: every function of the source is a HOL function of
  the same name, a Python exception is a value of \<open>error\<close> on the left of a sum, and
  the HTTP requests a call hands to \<open>fetch_url\<close> are returned beside its result, in
  the order they were sent.
\<close>

subsection \<open>Values\<close>

text \<open>
  The values the module handles are what \<open>json.loads\<close> returns and what the host puts
  into the free-form \<open>fields\<close> parameter. A Python dict keeps its keys in insertion order
  and assigning to a key already present keeps its place: an association list under
  \<open>AList.update\<close>.
\<close>

datatype json =
    JNull
  | JBool bool
  | JInt int
  | JStr string
  | JList "json list"
  | JDict "(string \<times> json) list"

type_synonym pydict = "(string \<times> json) list"

text \<open>Python's truth value of an object (\<open>if x:\<close>, \<open>not x\<close>).\<close>

definition truthy :: "json \<Rightarrow> bool" where
  "truthy j =
     (case j of
        JNull \<Rightarrow> False
      | JBool b \<Rightarrow> b
      | JInt n \<Rightarrow> n \<noteq> 0
      | JStr s \<Rightarrow> s \<noteq> []
      | JList l \<Rightarrow> l \<noteq> []
      | JDict d \<Rightarrow> d \<noteq> [])"

text \<open>The truth value of a string parameter that may be \<open>None\<close>.\<close>

definition truthy_str :: "string option \<Rightarrow> bool" where
  "truthy_str s = (case s of None \<Rightarrow> False | Some t \<Rightarrow> t \<noteq> [])"

text \<open>A string parameter as a value: \<open>None\<close> is \<open>null\<close>.\<close>

definition str_json :: "string option \<Rightarrow> json" where
  "str_json s = (case s of None \<Rightarrow> JNull | Some t \<Rightarrow> JStr t)"

text \<open>\<open>d[k] = v\<close> and \<open>d.update(items)\<close> on a dict.\<close>

definition dict_set :: "string \<Rightarrow> json \<Rightarrow> pydict \<Rightarrow> pydict" where
  "dict_set k v d = AList.update k v d"

definition dict_update :: "pydict \<Rightarrow> pydict \<Rightarrow> pydict" where
  "dict_update d items = fold (\<lambda>(k, v). dict_set k v) items d"

text \<open>\<open>sep.join(xs)\<close>.\<close>

fun join :: "string \<Rightarrow> string list \<Rightarrow> string" where
  "join sep [] = []"
| "join sep [x] = x"
| "join sep (x # y # ys) = x @ sep @ join sep (y # ys)"

subsection \<open>Exceptions\<close>

text \<open>
  The exceptions the module can raise, each with the text \<open>str(e)\<close> gives. \<open>FailJson\<close>
  is \<open>module.fail_json(msg=...)\<close>: the host reports the message and exits the process
  with \<open>SystemExit\<close>, which no \<open>except Exception\<close> of the module catches.
\<close>

datatype error =
    TypeError string
  | ValueError string
  | AttributeError string
  | KeyError string
  | IOError string
  | PlainException string
  | FailJson string

fun str_error :: "error \<Rightarrow> string" where
  "str_error (TypeError m) = m"
| "str_error (ValueError m) = m"
| "str_error (AttributeError m) = m"
| "str_error (KeyError k) = [CHR 0x27] @ k @ [CHR 0x27]"
| "str_error (IOError m) = m"
| "str_error (PlainException m) = m"
| "str_error (FailJson m) = m"

text \<open>\<open>s + t\<close> where \<open>t\<close> is a parameter that may be \<open>None\<close>.\<close>

definition str_add :: "string \<Rightarrow> string option \<Rightarrow> error + string" where
  "str_add s t =
     (case t of
        None \<Rightarrow> Inl (TypeError (''can only concatenate str (not '' @ [CHR 0x22] @ ''NoneType''
                  @ [CHR 0x22] @ '') to str''))
      | Some u \<Rightarrow> Inr (s @ u))"

text \<open>\<open>'%s' % s\<close> for a parameter that may be \<open>None\<close>.\<close>

definition str_format :: "string option \<Rightarrow> string" where
  "str_format s = (case s of None \<Rightarrow> ''None'' | Some t \<Rightarrow> t)"

subsection \<open>The world outside the module\<close>

text \<open>
  What is sent with a request: the dict a handler builds, or text (the serialised dict,
  the multipart body of an attachment).
\<close>

datatype payload = Json json | Text string

definition truthy_payload :: "payload \<Rightarrow> bool" where
  "truthy_payload d = (case d of Json j \<Rightarrow> truthy j | Text s \<Rightarrow> s \<noteq> [])"

definition payload_json :: "payload \<Rightarrow> json" where
  "payload_json d = (case d of Json j \<Rightarrow> j | Text s \<Rightarrow> JStr s)"

text \<open>\<open>info\<close> as \<open>fetch_url\<close> returns it; \<open>info['body']\<close> is only there for some failures.\<close>

record http_info =
  info_status :: int
  info_body :: "string option"

text \<open>One call of \<open>fetch_url\<close>: a request on the wire.\<close>

record http_call =
  call_url :: string
  call_data :: "payload option"
  call_method :: "string option"
  call_headers :: "(string \<times> string) list"

text \<open>
  The library functions and the surroundings the module relies on, none of them part of
  the repository: the HTTP layer, the JSON codec, Base64 encoding, URL quoting, MIME type
  guessing, the file system and the random source of the multipart boundary. The timeout
  is a float in the source; it is only handed on to \<open>fetch_url\<close>.
\<close>

record env =
  fetch_url :: "string \<Rightarrow> payload option \<Rightarrow> string option \<Rightarrow> int \<Rightarrow> (string \<times> string) list
                  \<Rightarrow> string \<times> http_info"
  json_loads :: "string \<Rightarrow> json option"
  json_dumps :: "json \<Rightarrow> string"
  py_str :: "json \<Rightarrow> string"
  str_int :: "int \<Rightarrow> string"
  b64encode :: "string \<Rightarrow> string"
  pathname2url :: "string \<Rightarrow> string"
  guess_type :: "string \<Rightarrow> string option"
  isfile :: "string \<Rightarrow> bool"
  read_file :: "string \<Rightarrow> string option"
  random_boundary :: string

subsection \<open>The request client\<close>

text \<open>
  The source tests \<open>isinstance(additional_headers) == dict\<close>. The builtin takes exactly
  two arguments; called with one it raises \<open>TypeError\<close>, whatever the argument is.
\<close>

definition isinstance :: "'a \<Rightarrow> error + bool" where
  "isinstance x = Inl (TypeError ''isinstance expected 2 arguments, got 1'')"

text \<open>\<open>error.get(key)\<close> on a decoded error body: only a dict has \<open>get\<close>.\<close>

definition no_attribute_get :: "string \<Rightarrow> error" where
  "no_attribute_get ty =
     AttributeError ([CHR 0x27] @ ty @ [CHR 0x27] @ '' object has no attribute ''
                       @ [CHR 0x27] @ ''get'' @ [CHR 0x27])"

definition json_get :: "json \<Rightarrow> string \<Rightarrow> error + json" where
  "json_get j k =
     (case j of
        JDict d \<Rightarrow> (case map_of d k of None \<Rightarrow> Inr JNull | Some v \<Rightarrow> Inr v)
      | JList _ \<Rightarrow> Inl (no_attribute_get ''list'')
      | JStr _ \<Rightarrow> Inl (no_attribute_get ''str'')
      | JInt _ \<Rightarrow> Inl (no_attribute_get ''int'')
      | JBool _ \<Rightarrow> Inl (no_attribute_get ''bool'')
      | JNull \<Rightarrow> Inl (no_attribute_get ''NoneType''))"

text \<open>
  The loop of \<open>request\<close> over \<open>('errorMessages', 'errors')\<close>: the rendering of each
  field that is present and true, in this order.
\<close>

fun error_messages :: "env \<Rightarrow> json \<Rightarrow> string list \<Rightarrow> error + string list" where
  "error_messages env err [] = Inr []"
| "error_messages env err (key # keys) =
     (case json_get err key of
        Inl e \<Rightarrow> Inl e
      | Inr v \<Rightarrow>
          (case error_messages env err keys of
             Inl e \<Rightarrow> Inl e
           | Inr msg \<Rightarrow> Inr (if truthy v then py_str env v # msg else msg)))"

text \<open>
  What \<open>request\<close> does with the answer of \<open>fetch_url\<close>: the failure report for a
  status other than 200, 201 and 204, the decoded body otherwise.
\<close>

definition request_response :: "env \<Rightarrow> string \<Rightarrow> http_info \<Rightarrow> error + json" where
  "request_response env response info =
     (if info_status info \<notin> {200, 201, 204} then
        (case info_body info of
           None \<Rightarrow> Inl (KeyError ''body'')
         | Some b \<Rightarrow>
             (case json_loads env b of
                None \<Rightarrow> Inl (FailJson b)
              | Some err \<Rightarrow>
                  if truthy err then
                    (case error_messages env err [''errorMessages'', ''errors''] of
                       Inl e \<Rightarrow> Inl e
                     | Inr msg \<Rightarrow>
                         if msg \<noteq> [] then Inl (FailJson (join '', '' msg))
                         else Inl (FailJson (py_str env err)))
                  else Inl (FailJson b)))
      else if response \<noteq> [] then
        (case json_loads env response of
           None \<Rightarrow> Inl (ValueError ''Expecting value'')
         | Some j \<Rightarrow> Inr j)
      else Inr (JDict []))"

text \<open>
  \<open>request\<close>: serialise the data, build the headers, call \<open>fetch_url\<close> once and read
  the answer. The second component lists the calls of \<open>fetch_url\<close> made.
\<close>

definition request ::
  "env \<Rightarrow> string \<Rightarrow> string \<Rightarrow> string \<Rightarrow> int \<Rightarrow> payload option \<Rightarrow> string option \<Rightarrow> string
     \<Rightarrow> (string \<times> string) list option \<Rightarrow> (error + json) \<times> http_call list" where
  "request env url user passwd timeout data method content_type additional_headers =
     (let data =
            (case data of
               None \<Rightarrow> None
             | Some d \<Rightarrow>
                 if truthy_payload d \<and> content_type = ''application/json''
                 then Some (Text (json_dumps env (payload_json d)))
                 else Some d);
          auth = b64encode env (user @ '':'' @ passwd);
          headers = []
      in case isinstance additional_headers of
           Inl e \<Rightarrow> (Inl e, [])
         | Inr is_dict \<Rightarrow>
             (let headers =
                    (case additional_headers of
                       Some h \<Rightarrow> if is_dict then h else headers
                     | None \<Rightarrow> headers);
                  headers =
                    AList.update ''Authorization'' (''Basic '' @ auth)
                      (AList.update ''Content-Type'' content_type headers);
                  (response, info) = fetch_url env url data method timeout headers
              in (request_response env response info,
                  [\<lparr>call_url = url, call_data = data, call_method = method,
                    call_headers = headers\<rparr>])))"

definition post ::
  "env \<Rightarrow> string \<Rightarrow> string \<Rightarrow> string \<Rightarrow> int \<Rightarrow> payload \<Rightarrow> string
     \<Rightarrow> (string \<times> string) list option \<Rightarrow> (error + json) \<times> http_call list" where
  "post env url user passwd timeout data content_type additional_headers =
     request env url user passwd timeout (Some data) (Some ''POST'') content_type
       additional_headers"

definition put ::
  "env \<Rightarrow> string \<Rightarrow> string \<Rightarrow> string \<Rightarrow> int \<Rightarrow> payload \<Rightarrow> (error + json) \<times> http_call list" where
  "put env url user passwd timeout data =
     request env url user passwd timeout (Some data) (Some ''PUT'') ''application/json'' None"

definition get ::
  "env \<Rightarrow> string \<Rightarrow> string \<Rightarrow> string \<Rightarrow> int \<Rightarrow> (error + json) \<times> http_call list" where
  "get env url user passwd timeout =
     request env url user passwd timeout None None ''application/json'' None"

subsection \<open>Parameters\<close>

text \<open>
  \<open>module.params\<close> as the host hands it over: a parameter that was not supplied is
  \<open>None\<close>, \<open>fields\<close> defaults to the empty dict. The fields carry the parameter names
  of the source, prefixed since several are also names of handlers.
\<close>

record attachment_spec =
  a_filename :: "string option"
  a_content :: "string option"
  a_mimetype :: "string option"

record params =
  p_attachment :: "attachment_spec option"
  p_uri :: string
  p_operation :: string
  p_username :: string
  p_password :: string
  p_project :: "string option"
  p_summary :: "string option"
  p_description :: "string option"
  p_issuetype :: "string option"
  p_issue :: "string option"
  p_comment :: "string option"
  p_status :: "string option"
  p_assignee :: "string option"
  p_fields :: pydict
  p_linktype :: "string option"
  p_inwardissue :: "string option"
  p_outwardissue :: "string option"
  p_jql :: "string option"
  p_maxresults :: "int option"
  p_timeout :: int
  p_validate_certs :: bool
  p_account_id :: "string option"

subsection \<open>The handlers\<close>

text \<open>
  Each handler builds its data and its URL and hands them to \<open>post\<close>, \<open>put\<close> or
  \<open>get\<close>; where an exception leaves it, the left of the sum holds it. The data and
  the URL of a handler are definitions of their own, so that they can be named.
\<close>

type_synonym handler_result = "(error + bool \<times> json) \<times> http_call list"

definition returning :: "bool \<Rightarrow> (error + json) \<times> http_call list \<Rightarrow> handler_result" where
  "returning changed r =
     (case r of
        (Inl e, sent) \<Rightarrow> (Inl e, sent)
      | (Inr ret, sent) \<Rightarrow> (Inr (changed, ret), sent))"

definition create_data :: "params \<Rightarrow> json" where
  "create_data params =
     (let createfields =
            [(''project'', JDict [(''key'', str_json (p_project params))]),
             (''summary'', str_json (p_summary params)),
             (''issuetype'', JDict [(''name'', str_json (p_issuetype params))])];
          createfields =
            (if truthy_str (p_description params)
             then dict_set ''description'' (str_json (p_description params)) createfields
             else createfields);
          createfields =
            (if p_fields params \<noteq> [] then dict_update createfields (p_fields params)
             else createfields)
      in JDict [(''fields'', JDict createfields)])"

definition create :: "env \<Rightarrow> string \<Rightarrow> string \<Rightarrow> string \<Rightarrow> params \<Rightarrow> handler_result" where
  "create env restbase user passwd params =
     (let data = create_data params;
          url = restbase @ ''/issue/''
      in returning True
           (post env url user passwd (p_timeout params) (Json data) ''application/json'' None))"

definition comment_data :: "params \<Rightarrow> json" where
  "comment_data params = JDict [(''body'', str_json (p_comment params))]"

definition comment :: "env \<Rightarrow> string \<Rightarrow> string \<Rightarrow> string \<Rightarrow> params \<Rightarrow> handler_result" where
  "comment env restbase user passwd params =
     (let data = comment_data params in
      case str_add (restbase @ ''/issue/'') (p_issue params) of
        Inl e \<Rightarrow> (Inl e, [])
      | Inr u \<Rightarrow>
          (let url = u @ ''/comment''
           in returning True
                (post env url user passwd (p_timeout params) (Json data) ''application/json''
                   None)))"

definition edit_data :: "params \<Rightarrow> json" where
  "edit_data params = JDict [(''fields'', JDict (p_fields params))]"

definition edit :: "env \<Rightarrow> string \<Rightarrow> string \<Rightarrow> string \<Rightarrow> params \<Rightarrow> handler_result" where
  "edit env restbase user passwd params =
     (let data = edit_data params in
      case str_add (restbase @ ''/issue/'') (p_issue params) of
        Inl e \<Rightarrow> (Inl e, [])
      | Inr url \<Rightarrow> returning True (put env url user passwd (p_timeout params) (Json data)))"

definition update_data :: "params \<Rightarrow> json" where
  "update_data params = JDict [(''update'', JDict (p_fields params))]"

definition update :: "env \<Rightarrow> string \<Rightarrow> string \<Rightarrow> string \<Rightarrow> params \<Rightarrow> handler_result" where
  "update env restbase user passwd params =
     (let data = update_data params in
      case str_add (restbase @ ''/issue/'') (p_issue params) of
        Inl e \<Rightarrow> (Inl e, [])
      | Inr url \<Rightarrow> returning True (put env url user passwd (p_timeout params) (Json data)))"

definition fetch :: "env \<Rightarrow> string \<Rightarrow> string \<Rightarrow> string \<Rightarrow> params \<Rightarrow> handler_result" where
  "fetch env restbase user passwd params =
     (case str_add (restbase @ ''/issue/'') (p_issue params) of
        Inl e \<Rightarrow> (Inl e, [])
      | Inr url \<Rightarrow> returning False (get env url user passwd (p_timeout params)))"

text \<open>
  \<open>search\<close> quotes the query and the keys of \<open>fields\<close> with \<open>pathname2url\<close>, which
  raises on \<open>None\<close>; a limit of 0 is left out like one that was not given.
\<close>

definition search_url :: "env \<Rightarrow> string \<Rightarrow> string \<Rightarrow> params \<Rightarrow> string" where
  "search_url env restbase jql params =
     (let url = restbase @ ''/search?jql='' @ pathname2url env jql;
          url =
            (if p_fields params \<noteq> []
             then url @ ''&fields=''
                    @ join ''&fields='' (map (pathname2url env) (map fst (p_fields params)))
             else url)
      in case p_maxresults params of
           None \<Rightarrow> url
         | Some n \<Rightarrow> if n \<noteq> 0 then url @ ''&maxResults='' @ str_int env n else url)"

definition search :: "env \<Rightarrow> string \<Rightarrow> string \<Rightarrow> string \<Rightarrow> params \<Rightarrow> handler_result" where
  "search env restbase user passwd params =
     (case p_jql params of
        None \<Rightarrow> (Inl (TypeError ''quote_from_bytes() expected bytes''), [])
      | Some jql \<Rightarrow>
          returning False
            (get env (search_url env restbase jql params) user passwd (p_timeout params)))"

definition link_data :: "params \<Rightarrow> json" where
  "link_data params =
     JDict [(''type'', JDict [(''name'', str_json (p_linktype params))]),
            (''inwardIssue'', JDict [(''key'', str_json (p_inwardissue params))]),
            (''outwardIssue'', JDict [(''key'', str_json (p_outwardissue params))])]"

definition link :: "env \<Rightarrow> string \<Rightarrow> string \<Rightarrow> string \<Rightarrow> params \<Rightarrow> handler_result" where
  "link env restbase user passwd params =
     (let data = link_data params;
          url = restbase @ ''/issueLink/''
      in returning True
           (post env url user passwd (p_timeout params) (Json data) ''application/json'' None))"

subsection \<open>Transitions\<close>

text \<open>\<open>j[k]\<close> and \<open>for t in j\<close> on a decoded value.\<close>

definition quoted :: "string \<Rightarrow> string" where
  "quoted s = [CHR 0x27] @ s @ [CHR 0x27]"

definition json_item :: "json \<Rightarrow> string \<Rightarrow> error + json" where
  "json_item j k =
     (case j of
        JDict d \<Rightarrow> (case map_of d k of None \<Rightarrow> Inl (KeyError k) | Some v \<Rightarrow> Inr v)
      | JList _ \<Rightarrow> Inl (TypeError ''list indices must be integers or slices, not str'')
      | JStr _ \<Rightarrow> Inl (TypeError ''string indices must be integers'')
      | JInt _ \<Rightarrow> Inl (TypeError (quoted ''int'' @ '' object is not subscriptable''))
      | JBool _ \<Rightarrow> Inl (TypeError (quoted ''bool'' @ '' object is not subscriptable''))
      | JNull \<Rightarrow> Inl (TypeError (quoted ''NoneType'' @ '' object is not subscriptable'')))"

definition json_iter :: "json \<Rightarrow> error + json list" where
  "json_iter j =
     (case j of
        JList l \<Rightarrow> Inr l
      | JDict d \<Rightarrow> Inr (map (\<lambda>kv. JStr (fst kv)) d)
      | JStr s \<Rightarrow> Inr (map (\<lambda>c. JStr [c]) s)
      | JInt _ \<Rightarrow> Inl (TypeError (quoted ''int'' @ '' object is not iterable''))
      | JBool _ \<Rightarrow> Inl (TypeError (quoted ''bool'' @ '' object is not iterable''))
      | JNull \<Rightarrow> Inl (TypeError (quoted ''NoneType'' @ '' object is not iterable'')))"

text \<open>
  The loop of \<open>transition\<close> over the transitions the server reports: the \<open>id\<close> of the
  first whose \<open>name\<close> equals the target, \<open>None\<close> when the loop ends without a
  \<open>break\<close>.
\<close>

fun find_transition :: "json \<Rightarrow> json list \<Rightarrow> error + json option" where
  "find_transition target [] = Inr None"
| "find_transition target (t # ts) =
     (case json_item t ''name'' of
        Inl e \<Rightarrow> Inl e
      | Inr name \<Rightarrow>
          if name = target then
            (case json_item t ''id'' of Inl e \<Rightarrow> Inl e | Inr tid \<Rightarrow> Inr (Some tid))
          else find_transition target ts)"

definition transition_fields :: "params \<Rightarrow> pydict" where
  "transition_fields params =
     (let fields = p_fields params;
          fields =
            (case p_summary params of
               None \<Rightarrow> fields
             | Some s \<Rightarrow> dict_update fields [(''summary'', JStr s)])
      in case p_description params of
           None \<Rightarrow> fields
         | Some d \<Rightarrow> dict_update fields [(''description'', JStr d)])"

definition transition_data :: "json \<Rightarrow> params \<Rightarrow> json" where
  "transition_data tid params =
     (let data = [(''transition'', JDict [(''id'', tid)]),
                  (''fields'', JDict (transition_fields params))]
      in case p_comment params of
           None \<Rightarrow> JDict data
         | Some c \<Rightarrow>
             JDict (dict_update data
               [(''update'',
                 JDict [(''comment'', JList [JDict [(''add'', JDict [(''body'', JStr c)])]])])]))"

definition transition :: "env \<Rightarrow> string \<Rightarrow> string \<Rightarrow> string \<Rightarrow> params \<Rightarrow> handler_result" where
  "transition env restbase user passwd params =
     (case str_add (restbase @ ''/issue/'') (p_issue params) of
        Inl e \<Rightarrow> (Inl e, [])
      | Inr u \<Rightarrow>
          (let turl = u @ ''/transitions'' in
           case get env turl user passwd (p_timeout params) of
             (Inl e, sent) \<Rightarrow> (Inl e, sent)
           | (Inr tmeta, sent) \<Rightarrow>
               (let target = p_status params in
                case json_item tmeta ''transitions'' of
                  Inl e \<Rightarrow> (Inl e, sent)
                | Inr ts \<Rightarrow>
                    (case json_iter ts of
                       Inl e \<Rightarrow> (Inl e, sent)
                     | Inr tlist \<Rightarrow>
                         (case find_transition (str_json target) tlist of
                            Inl e \<Rightarrow> (Inl e, sent)
                          | Inr found \<Rightarrow>
                              (case (case found of
                                       None \<Rightarrow> None
                                     | Some tid \<Rightarrow> if truthy tid then Some tid else None) of
                                 None \<Rightarrow>
                                   (Inl (ValueError (''Failed find valid transition for ''
                                      @ quoted (str_format target))), sent)
                               | Some tid \<Rightarrow>
                                   (let url = u @ ''/transitions'';
                                        data = transition_data tid params;
                                        r = returning True
                                              (post env url user passwd (p_timeout params)
                                                 (Json data) ''application/json'' None)
                                    in (fst r, sent @ snd r))))))))"

subsection \<open>Attachments\<close>

text \<open>
  The source decodes inline content with \<open>base64.decode(content)\<close>. That function copies
  one file object into another and takes two arguments; called with one it raises
  \<open>TypeError\<close>, which the \<open>except binascii.Error\<close> around the call does not catch.
\<close>

definition base64_decode :: "string option \<Rightarrow> error + string" where
  "base64_decode content =
     Inl (TypeError (''decode() missing 1 required positional argument: '' @ quoted ''output''))"

text \<open>\<open>os.path.basename\<close>: what follows the last slash.\<close>

definition basename :: "string \<Rightarrow> string" where
  "basename path = rev (takeWhile (\<lambda>c. c \<noteq> CHR ''/'') (rev path))"

text \<open>\<open>s.partition(sep)\<close> for a separator of one character.\<close>

definition partition_str :: "char \<Rightarrow> string \<Rightarrow> string \<times> string \<times> string" where
  "partition_str sep s =
     (if sep \<in> set s
      then (takeWhile (\<lambda>c. c \<noteq> sep) s, [sep], tl (dropWhile (\<lambda>c. c \<noteq> sep) s))
      else (s, [], []))"

definition escape_quotes :: "string \<Rightarrow> string" where
  "escape_quotes s = concat (map (\<lambda>c. if c = CHR 0x22 then [CHR 0x5C, CHR 0x22] else [c]) s)"

text \<open>\<open>x or y\<close> on strings that may be \<open>None\<close>, with a string as the last resort.\<close>

definition str_or :: "string option \<Rightarrow> string \<Rightarrow> string" where
  "str_or s d = (case s of None \<Rightarrow> d | Some t \<Rightarrow> if t \<noteq> [] then t else d)"

definition prepare_attachment ::
  "env \<Rightarrow> string option \<Rightarrow> string option \<Rightarrow> string option \<Rightarrow> error + string \<times> string" where
  "prepare_attachment env filename content mime_type =
     (let boundary = random_boundary env in
      case filename of
        None \<Rightarrow>
          Inl (TypeError ''expected str, bytes or os.PathLike object, not NoneType'')
      | Some path \<Rightarrow>
          (let name = basename path;
               mime_type =
                 str_or mime_type (str_or (guess_type env path) ''application/octet-stream'');
               (main_type, sep, sub_type) = partition_str CHR ''/'' mime_type
           in case (if \<not> truthy_str content \<and> path \<noteq> []
                    then (case read_file env path of
                            None \<Rightarrow> Inl (IOError (''No such file or directory: '' @ quoted path))
                          | Some bytes \<Rightarrow> Inr bytes)
                    else base64_decode content) of
                Inl e \<Rightarrow> Inl e
              | Inr content \<Rightarrow>
                  (let lines =
                         [''--'' @ boundary,
                          ''Content-Disposition: form-data; name='' @ [CHR 0x22] @ ''file''
                            @ [CHR 0x22] @ ''; filename='' @ escape_quotes name,
                          ''Content-Type: '' @ main_type @ ''/'' @ sub_type,
                          [],
                          content,
                          ''--'' @ boundary @ ''--'',
                          []]
                   in Inr (''multipart/form-data; boundary='' @ boundary,
                           join [CHR 0x0D, CHR 0x0A] lines))))"

definition attach :: "env \<Rightarrow> string \<Rightarrow> string \<Rightarrow> string \<Rightarrow> params \<Rightarrow> handler_result" where
  "attach env restbase user passwd params =
     (case p_attachment params of
        None \<Rightarrow> (Inl (no_attribute_get ''NoneType''), [])
      | Some attachment \<Rightarrow>
          (let filename = a_filename attachment;
               content = a_content attachment
           in if \<not> (truthy_str filename \<or> truthy_str content) then
                (Inl (ValueError ''at least one of filename or content must be provided''), [])
              else
                (let mime = a_mimetype attachment in
                 case filename of
                   None \<Rightarrow>
                     (Inl (TypeError
                        ''stat: path should be string, bytes, os.PathLike or integer, not NoneType''),
                      [])
                 | Some path \<Rightarrow>
                     if \<not> isfile env path then
                       (Inl (ValueError (''The provided filename does not exist: '' @ path)), [])
                     else
                       (case prepare_attachment env filename content mime of
                          Inl e \<Rightarrow> (Inl e, [])
                        | Inr (content_type, data) \<Rightarrow>
                            (case str_add (restbase @ ''/issue/'') (p_issue params) of
                               Inl e \<Rightarrow> (Inl e, [])
                             | Inr u \<Rightarrow>
                                 (let url = u @ ''/attachments''
                                  in returning True
                                       (post env url user passwd (p_timeout params) (Text data)
                                          content_type
                                          (Some [(''X-Atlassian-Token'', ''no-check'')]))))))))"

subsection \<open>The host's argument checks\<close>

text \<open>
  Modelled from the spec: the host framework's argument validation (the constructor of
  \<open>AnsibleModule\<close>) is not part of the repository. The spec's precondition errors
  are "missing required fields for the chosen operation" and "mutually exclusive
  fields both set", the operation is "one of a fixed enumerated set", and supplying both
  \<open>assignee\<close> and \<open>account_id\<close> "must be rejected before dispatch". The three
  tables are the ones \<open>main\<close> passes to the constructor; a parameter counts as supplied
  when it is not \<open>None\<close>.
\<close>

definition operations :: "string list" where
  "operations =
     [''attach'', ''create'', ''comment'', ''edit'', ''update'', ''fetch'', ''transition'',
      ''link'', ''search'']"

definition required_if :: "(string \<times> string list) list" where
  "required_if =
     [(''attach'', [''issue'', ''attachment'']),
      (''create'', [''project'', ''issuetype'', ''summary'']),
      (''comment'', [''issue'', ''comment'']),
      (''fetch'', [''issue'']),
      (''transition'', [''issue'', ''status'']),
      (''link'', [''linktype'', ''inwardissue'', ''outwardissue'']),
      (''search'', [''jql''])]"

definition mutually_exclusive :: "(string \<times> string) list" where
  "mutually_exclusive = [(''assignee'', ''account_id'')]"

definition supplied :: "params \<Rightarrow> string \<Rightarrow> bool" where
  "supplied params name =
     (if name = ''attachment'' then p_attachment params \<noteq> None
      else if name = ''project'' then p_project params \<noteq> None
      else if name = ''summary'' then p_summary params \<noteq> None
      else if name = ''description'' then p_description params \<noteq> None
      else if name = ''issuetype'' then p_issuetype params \<noteq> None
      else if name = ''issue'' then p_issue params \<noteq> None
      else if name = ''comment'' then p_comment params \<noteq> None
      else if name = ''status'' then p_status params \<noteq> None
      else if name = ''assignee'' then p_assignee params \<noteq> None
      else if name = ''linktype'' then p_linktype params \<noteq> None
      else if name = ''inwardissue'' then p_inwardissue params \<noteq> None
      else if name = ''outwardissue'' then p_outwardissue params \<noteq> None
      else if name = ''jql'' then p_jql params \<noteq> None
      else if name = ''maxresults'' then p_maxresults params \<noteq> None
      else if name = ''account_id'' then p_account_id params \<noteq> None
      else True)"

definition AnsibleModule :: "params \<Rightarrow> error + params" where
  "AnsibleModule params =
     (case find (\<lambda>(a, b). supplied params a \<and> supplied params b) mutually_exclusive of
        Some (a, b) \<Rightarrow> Inl (FailJson (''parameters are mutually exclusive: '' @ a @ ''|'' @ b))
      | None \<Rightarrow>
          if p_operation params \<notin> set operations then
            Inl (FailJson (''value of operation must be one of: '' @ join '', '' operations
                   @ '', got: '' @ p_operation params))
          else
            (case map_of required_if (p_operation params) of
               None \<Rightarrow> Inr params
             | Some required \<Rightarrow>
                 (let missing = filter (\<lambda>name. \<not> supplied params name) required
                  in if missing \<noteq> [] then
                       Inl (FailJson (''operation is '' @ p_operation params
                              @ '' but all of the following are missing: ''
                              @ join '', '' missing))
                     else Inr params)))"

subsection \<open>The entry point\<close>

text \<open>
  How a run of the module ends: \<open>module.exit_json(changed=..., meta=...)\<close> or
  \<open>module.fail_json(msg=...)\<close>.
\<close>

datatype outcome = ExitJson bool json | Failed string

text \<open>
  The two assignments of \<open>main\<close> to \<open>module.params['fields']['assignee']\<close>, each under
  the truth value of its parameter.
\<close>

definition set_assignee :: "params \<Rightarrow> params" where
  "set_assignee params =
     (let params =
            (if truthy_str (p_assignee params)
             then params\<lparr>p_fields :=
                    dict_set ''assignee'' (JDict [(''name'', str_json (p_assignee params))])
                      (p_fields params)\<rparr>
             else params)
      in if truthy_str (p_account_id params)
         then params\<lparr>p_fields :=
                dict_set ''assignee'' (JDict [(''accountId'', str_json (p_account_id params))])
                  (p_fields params)\<rparr>
         else params)"

text \<open>
  \<open>getattr(thismod, op)\<close>: the handler of that name. The host has refused every other
  operation name before.
\<close>

definition getattr_thismod ::
  "string \<Rightarrow> error + (env \<Rightarrow> string \<Rightarrow> string \<Rightarrow> string \<Rightarrow> params \<Rightarrow> handler_result)" where
  "getattr_thismod op =
     (if op = ''attach'' then Inr attach
      else if op = ''create'' then Inr create
      else if op = ''comment'' then Inr comment
      else if op = ''edit'' then Inr edit
      else if op = ''update'' then Inr update
      else if op = ''fetch'' then Inr fetch
      else if op = ''transition'' then Inr transition
      else if op = ''link'' then Inr link
      else if op = ''search'' then Inr search
      else Inl (AttributeError (''module has no attribute '' @ quoted op)))"

definition restbase_of :: "string \<Rightarrow> string" where
  "restbase_of uri =
     (let uri = (if uri \<noteq> [] \<and> last uri = CHR ''/'' then uri else uri @ ''/'')
      in uri @ ''rest/api/2'')"

definition main :: "env \<Rightarrow> params \<Rightarrow> outcome \<times> http_call list" where
  "main env module_args =
     (case AnsibleModule module_args of
        Inl e \<Rightarrow> (Failed (str_error e), [])
      | Inr params \<Rightarrow>
          (let op = p_operation params;
               uri = p_uri params;
               user = p_username params;
               passwd = p_password params;
               params = set_assignee params;
               restbase = restbase_of uri
           in case getattr_thismod op of
                Inl e \<Rightarrow> (Failed (str_error e), [])
              | Inr method \<Rightarrow>
                  (case method env restbase user passwd params of
                     (Inl e, sent) \<Rightarrow> (Failed (str_error e), sent)
                   | (Inr (changed, ret), sent) \<Rightarrow> (ExitJson changed ret, sent))))"

subsection \<open>Sample surroundings\<close>

text \<open>
  A server that answers every request with the given status and body, beside a file
  system holding the one file \<open>report.txt\<close>; and the parameters of a run in which
  nothing but the required connection data was supplied.
\<close>

definition server :: "int \<Rightarrow> string \<Rightarrow> env" where
  "server status body =
     \<lparr>fetch_url = (\<lambda>url data method timeout headers.
                     (body, \<lparr>info_status = status, info_body = Some body\<rparr>)),
      json_loads = (\<lambda>s. if s = ''{}'' then Some (JDict []) else None),
      json_dumps = (\<lambda>j. ''{}''),
      py_str = (\<lambda>j. ''{}''),
      str_int = (\<lambda>n. ''10''),
      b64encode = (\<lambda>s. s),
      pathname2url = (\<lambda>s. s),
      guess_type = (\<lambda>path. None),
      isfile = (\<lambda>path. path = ''report.txt''),
      read_file = (\<lambda>path. if path = ''report.txt'' then Some ''hello'' else None),
      random_boundary = ''0123456789abcdefghijABCDEFGHIJ''\<rparr>"

definition bare_params :: "string \<Rightarrow> params" where
  "bare_params op =
     \<lparr>p_attachment = None,
      p_uri = ''https://jira.example.com'',
      p_operation = op,
      p_username = ''user'',
      p_password = ''secret'',
      p_project = None,
      p_summary = None,
      p_description = None,
      p_issuetype = None,
      p_issue = None,
      p_comment = None,
      p_status = None,
      p_assignee = None,
      p_fields = [],
      p_linktype = None,
      p_inwardissue = None,
      p_outwardissue = None,
      p_jql = None,
      p_maxresults = None,
      p_timeout = 10,
      p_validate_certs = True,
      p_account_id = None\<rparr>"

text \<open>
  The entry the two assignments of \<open>main\<close> leave under \<open>assignee\<close>: that of
  \<open>account_id\<close>, the later assignment, when it is made, that of \<open>assignee\<close> otherwise.
\<close>

definition assignee_entry :: "params \<Rightarrow> json" where
  "assignee_entry params =
     (if truthy_str (p_account_id params)
      then JDict [(''accountId'', str_json (p_account_id params))]
      else JDict [(''name'', str_json (p_assignee params))])"

text \<open>Runs with an assignee, an account identifier, both, and an empty string for either.\<close>

definition alice_params :: params where
  "alice_params =
     (bare_params ''update'')
       \<lparr>p_issue := Some ''HSP-1'', p_assignee := Some ''alice'',
        p_fields := [(''labels'', JList [JStr ''ansible''])]\<rparr>"

definition account_params :: params where
  "account_params =
     (bare_params ''edit'')\<lparr>p_issue := Some ''HSP-1'', p_account_id := Some ''123''\<rparr>"

definition both_params :: params where
  "both_params =
     (bare_params ''edit'')
       \<lparr>p_issue := Some ''HSP-1'', p_assignee := Some ''alice'', p_account_id := Some ''123''\<rparr>"

definition empty_assignee_params :: params where
  "empty_assignee_params =
     (bare_params ''edit'')\<lparr>p_issue := Some ''HSP-1'', p_assignee := Some []\<rparr>"

definition empty_account_params :: params where
  "empty_account_params =
     (bare_params ''update'')\<lparr>p_issue := Some ''HSP-1'', p_account_id := Some []\<rparr>"

section \<open>What the request client does\<close>

text \<open>
  \<open>request\<close> never gets as far as \<open>fetch_url\<close>: the test of the additional
  headers raises first, on every input.
\<close>

lemma request_raises:
  "request env url user passwd timeout data method content_type additional_headers =
     (Inl (TypeError ''isinstance expected 2 arguments, got 1''), [])"
  by (simp add: request_def isinstance_def Let_def)

lemma post_raises:
  "post env url user passwd timeout data content_type additional_headers =
     (Inl (TypeError ''isinstance expected 2 arguments, got 1''), [])"
  by (simp add: post_def request_raises)

lemma put_raises:
  "put env url user passwd timeout data =
     (Inl (TypeError ''isinstance expected 2 arguments, got 1''), [])"
  by (simp add: put_def request_raises)

lemma get_raises:
  "get env url user passwd timeout =
     (Inl (TypeError ''isinstance expected 2 arguments, got 1''), [])"
  by (simp add: get_def request_raises)

lemma returning_raises: "returning changed (Inl e, sent) = (Inl e, sent)"
  by (simp add: returning_def)

lemmas raises = post_raises put_raises get_raises returning_raises

lemma str_add_Some: "str_add s (Some t) = Inr (s @ t)"
  by (simp add: str_add_def)

section \<open>No handler gets past the request client\<close>

lemma create_sends_nothing: "snd (create env rb u pw p) = []"
  by (simp add: create_def raises Let_def)

lemma comment_sends_nothing: "snd (comment env rb u pw p) = []"
  by (simp add: comment_def raises Let_def split: sum.split)

lemma edit_sends_nothing: "snd (edit env rb u pw p) = []"
  by (simp add: edit_def raises Let_def split: sum.split)

lemma update_sends_nothing: "snd (update env rb u pw p) = []"
  by (simp add: update_def raises Let_def split: sum.split)

lemma fetch_sends_nothing: "snd (fetch env rb u pw p) = []"
  by (simp add: fetch_def raises Let_def split: sum.split)

lemma search_sends_nothing: "snd (search env rb u pw p) = []"
  by (simp add: search_def raises Let_def split: option.split)

lemma link_sends_nothing: "snd (link env rb u pw p) = []"
  by (simp add: link_def raises Let_def)

lemma transition_sends_nothing: "snd (transition env rb u pw p) = []"
  by (simp add: transition_def raises Let_def split: sum.split)

lemma attach_sends_nothing: "snd (attach env rb u pw p) = []"
  by (simp add: attach_def raises Let_def split: sum.split option.split prod.split)

lemmas sends_nothing = create_sends_nothing comment_sends_nothing edit_sends_nothing
  update_sends_nothing fetch_sends_nothing search_sends_nothing link_sends_nothing
  transition_sends_nothing attach_sends_nothing

lemma getattr_sends_nothing:
  assumes "getattr_thismod op = Inr method"
  shows "snd (method env rb u pw p) = []"
  using assms by (auto simp: getattr_thismod_def sends_nothing split: if_splits)

text \<open>
  Claim C1. The spec has each of the nine handlers build its request and return the
  changed flag of its row paired with the decoded answer. In the source every handler
  ends in the \<open>TypeError\<close> of \<open>request\<close> instead, whatever the server would have
  answered, and nothing is sent: \<open>create\<close> and \<open>link\<close> on any parameters, the
  handlers of one issue on any issue key, \<open>search\<close> on any query, \<open>attach\<close> on a
  file that exists.
\<close>

theorem handlers_raise_before_sending:
  "create env rb u pw p = (Inl (TypeError ''isinstance expected 2 arguments, got 1''), [])
   \<and> comment env rb u pw (p\<lparr>p_issue := Some k\<rparr>)
       = (Inl (TypeError ''isinstance expected 2 arguments, got 1''), [])
   \<and> edit env rb u pw (p\<lparr>p_issue := Some k\<rparr>)
       = (Inl (TypeError ''isinstance expected 2 arguments, got 1''), [])
   \<and> update env rb u pw (p\<lparr>p_issue := Some k\<rparr>)
       = (Inl (TypeError ''isinstance expected 2 arguments, got 1''), [])
   \<and> fetch env rb u pw (p\<lparr>p_issue := Some k\<rparr>)
       = (Inl (TypeError ''isinstance expected 2 arguments, got 1''), [])
   \<and> search env rb u pw (p\<lparr>p_jql := Some q\<rparr>)
       = (Inl (TypeError ''isinstance expected 2 arguments, got 1''), [])
   \<and> transition env rb u pw (p\<lparr>p_issue := Some k\<rparr>)
       = (Inl (TypeError ''isinstance expected 2 arguments, got 1''), [])
   \<and> link env rb u pw p = (Inl (TypeError ''isinstance expected 2 arguments, got 1''), [])
   \<and> attach (server 200 ''{}'') rb u pw
         (p\<lparr>p_issue := Some k,
            p_attachment := Some \<lparr>a_filename = Some ''report.txt'', a_content = None,
                                   a_mimetype = None\<rparr>\<rparr>)
       = (Inl (TypeError ''isinstance expected 2 arguments, got 1''), [])"
proof (intro conjI)
  show "create env rb u pw p = (Inl (TypeError ''isinstance expected 2 arguments, got 1''), [])"
    by (simp add: create_def raises Let_def)
  show "comment env rb u pw (p\<lparr>p_issue := Some k\<rparr>)
       = (Inl (TypeError ''isinstance expected 2 arguments, got 1''), [])"
    by (simp add: comment_def raises str_add_Some Let_def)
  show "edit env rb u pw (p\<lparr>p_issue := Some k\<rparr>)
       = (Inl (TypeError ''isinstance expected 2 arguments, got 1''), [])"
    by (simp add: edit_def raises str_add_Some Let_def)
  show "update env rb u pw (p\<lparr>p_issue := Some k\<rparr>)
       = (Inl (TypeError ''isinstance expected 2 arguments, got 1''), [])"
    by (simp add: update_def raises str_add_Some Let_def)
  show "fetch env rb u pw (p\<lparr>p_issue := Some k\<rparr>)
       = (Inl (TypeError ''isinstance expected 2 arguments, got 1''), [])"
    by (simp add: fetch_def raises str_add_Some Let_def)
  show "search env rb u pw (p\<lparr>p_jql := Some q\<rparr>)
       = (Inl (TypeError ''isinstance expected 2 arguments, got 1''), [])"
    by (simp add: search_def raises Let_def)
  show "transition env rb u pw (p\<lparr>p_issue := Some k\<rparr>)
       = (Inl (TypeError ''isinstance expected 2 arguments, got 1''), [])"
    by (simp add: transition_def raises str_add_Some Let_def)
  show "link env rb u pw p = (Inl (TypeError ''isinstance expected 2 arguments, got 1''), [])"
    by (simp add: link_def raises Let_def)
  show "attach (server 200 ''{}'') rb u pw
         (p\<lparr>p_issue := Some k,
            p_attachment := Some \<lparr>a_filename = Some ''report.txt'', a_content = None,
                                   a_mimetype = None\<rparr>\<rparr>)
       = (Inl (TypeError ''isinstance expected 2 arguments, got 1''), [])"
    by (simp add: attach_def prepare_attachment_def truthy_str_def server_def str_or_def
        partition_str_def raises str_add_Some Let_def split: prod.split)
qed

text \<open>
  Claim C2. The spec has a call succeed exactly on the status codes 200, 201 and 204. In the
  source \<open>request\<close> returns on no input: no environment, and so no status code and no
  body, makes its result a value.
\<close>

theorem request_never_returns:
  "fst (request env url user passwd timeout data method content_type additional_headers)
     \<noteq> Inr ret"
  by (simp add: request_raises)

text \<open>
  Claim C3. The spec has a failing answer reported by its structured error fields or else
  by its raw body. In the source a run of \<open>fetch\<close> against a server that answers 502
  with the body \<open>Bad Gateway\<close> fails with the text of the \<open>TypeError\<close>, and the body is
  never looked at.
\<close>

theorem bad_gateway_message:
  "main (server 502 ''Bad Gateway'') ((bare_params ''fetch'')\<lparr>p_issue := Some ''HSP-1''\<rparr>)
     = (Failed ''isinstance expected 2 arguments, got 1'', [])"
  by (simp add: main_def AnsibleModule_def mutually_exclusive_def supplied_def operations_def
      required_if_def bare_params_def getattr_thismod_def fetch_def raises str_add_Some
      set_assignee_def truthy_str_def Let_def)

text \<open>
  Claim C4. The spec has every request carry the \<open>Authorization\<close> and \<open>Content-Type\<close>
  headers. In the source no run of the module hands a request to \<open>fetch_url\<close>, with
  or without headers: the list of requests sent is empty for every environment and every
  parameters.
\<close>

theorem no_request_leaves_main: "snd (main env module_args) = []"
proof (cases "AnsibleModule module_args")
  case (Inl e)
  then show ?thesis by (simp add: main_def)
next
  case (Inr params)
  show ?thesis
  proof (cases "getattr_thismod (p_operation params)")
    case (Inl e)
    with Inr show ?thesis by (simp add: main_def Let_def)
  next
    case found: (Inr handler)
    have "snd (handler env (restbase_of (p_uri params)) (p_username params)
                 (p_password params) (set_assignee params)) = []"
      using found by (rule getattr_sends_nothing)
    with Inr found show ?thesis
      by (auto simp: main_def Let_def split: prod.split sum.split)
  qed
qed

text \<open>
  Claim C5. The spec has \<open>transition\<close> look the requested status up among the
  transitions the server reports. In the source the handler ends in the \<open>TypeError\<close> of
  its first \<open>get\<close> for every server, every issue key and every requested status, one
  the server knows as one it does not: the same error, and not the one that names the
  status.
\<close>

theorem transition_raises_before_lookup:
  "transition env rb u pw (p\<lparr>p_issue := Some k, p_status := target\<rparr>)
     = (Inl (TypeError ''isinstance expected 2 arguments, got 1''), [])"
  by (simp add: transition_def raises str_add_Some Let_def)

text \<open>
  Claim C9. \<open>transition\<close> is written to merge \<open>summary\<close> and \<open>description\<close> into the
  fields it posts. A run with both supplied, on any issue and status, fails before the
  fields are built and posts nothing.
\<close>

theorem transition_summary_never_posted:
  "main env ((bare_params ''transition'')
               \<lparr>p_issue := Some k, p_status := Some t, p_summary := Some s,
                 p_description := Some d\<rparr>)
     = (Failed ''isinstance expected 2 arguments, got 1'', [])"
  by (simp add: main_def AnsibleModule_def mutually_exclusive_def supplied_def operations_def
      required_if_def bare_params_def getattr_thismod_def transition_def raises str_add_Some
      set_assignee_def truthy_str_def Let_def)

section \<open>Attachments with inline content\<close>

text \<open>
  Claim C7. The spec has inline content decoded, the call failing only on malformed
  Base64 and never on the path. In the source \<open>attach\<close> with inline content, well formed
  or not, raises \<open>ValueError\<close> when the path is not a file, and the \<open>TypeError\<close> of
  \<open>base64.decode\<close> when it is.
\<close>

theorem attach_inline_content:
  "attach env rb u pw
     (p\<lparr>p_attachment := Some \<lparr>a_filename = Some path, a_content = Some (c # cs),
                               a_mimetype = mime\<rparr>\<rparr>)
   = (if isfile env path
      then (Inl (TypeError (''decode() missing 1 required positional argument: ''
                   @ quoted ''output'')), [])
      else (Inl (ValueError (''The provided filename does not exist: '' @ path)), []))"
  by (simp add: attach_def prepare_attachment_def truthy_str_def base64_decode_def Let_def
      split: prod.split)

text \<open>
  Claim C8. The spec has the payload of the multipart body be the decoded inline content.
  In the source \<open>_prepare_attachment\<close> with inline content produces no body: it raises
  the \<open>TypeError\<close> of \<open>base64.decode\<close> for every content that is not empty.
\<close>

theorem prepare_attachment_inline_content:
  "prepare_attachment env (Some path) (Some (c # cs)) mime_type
     = Inl (TypeError (''decode() missing 1 required positional argument: '' @ quoted ''output''))"
  by (simp add: prepare_attachment_def truthy_str_def base64_decode_def Let_def
      split: prod.split)

section \<open>The lines behind the failing test\<close>

text \<open>
  What the lines of \<open>request\<close> and \<open>transition\<close> that no run reaches would compute:
  a status other than 200, 201 and 204 is a failure, reported with the raw body when the
  body is not JSON; the first transition of the requested name gives the identifier; the
  summary and the description end up in the fields of the transition.
\<close>

lemma request_response_failure:
  assumes "info_status info \<notin> {200, 201, 204}"
  shows "\<exists>e. request_response env response info = Inl e"
  using assms
  by (auto simp: request_response_def split: option.split sum.split)

lemma request_response_raw_body:
  assumes "info_status info \<notin> {200, 201, 204}"
    and "info_body info = Some b"
    and "json_loads env b = None"
  shows "request_response env response info = Inl (FailJson b)"
  using assms by (simp add: request_response_def)

lemma request_response_success:
  assumes "info_status info \<in> {200, 201, 204}"
  shows "request_response env response info =
           (if response = [] then Inr (JDict [])
            else case json_loads env response of
                   None \<Rightarrow> Inl (ValueError ''Expecting value'')
                 | Some j \<Rightarrow> Inr j)"
  using assms by (auto simp: request_response_def)

lemma find_transition_first_match:
  assumes "\<forall>t \<in> set before. \<exists>name. json_item t ''name'' = Inr name \<and> name \<noteq> target"
    and "json_item t ''name'' = Inr target"
    and "json_item t ''id'' = Inr tid"
  shows "find_transition target (before @ t # after) = Inr (Some tid)"
  using assms by (induction before) auto

lemma find_transition_no_match:
  assumes "\<forall>t \<in> set ts. \<exists>name. json_item t ''name'' = Inr name \<and> name \<noteq> target"
  shows "find_transition target ts = Inr None"
  using assms by (induction ts) auto

lemma transition_fields_summary:
  "p_summary params = Some s \<Longrightarrow> p_description params = None \<Longrightarrow>
     map_of (transition_fields params) ''summary'' = Some (JStr s)"
  by (simp add: transition_fields_def dict_update_def dict_set_def AList.update_conv' Let_def)

lemma transition_fields_description:
  "p_description params = Some d \<Longrightarrow>
     map_of (transition_fields params) ''description'' = Some (JStr d)"
  by (simp add: transition_fields_def dict_update_def dict_set_def AList.update_conv' Let_def)

section \<open>The assignee\<close>

lemma map_of_dict_set: "map_of (dict_set k v d) = (map_of d)(k \<mapsto> v)"
  by (simp add: dict_set_def AList.update_conv')

lemma distinct_dict_set: "distinct (map fst d) \<Longrightarrow> distinct (map fst (dict_set k v d))"
  by (simp add: dict_set_def AList.distinct_update)

lemma dict_update_Cons:
  "dict_update d ((k, v) # items) = dict_update (dict_set k v d) items"
  by (simp add: dict_update_def)

lemma map_of_dict_update:
  "distinct (map fst items) \<Longrightarrow>
     map_of (dict_update d items) k
       = (case map_of items k of None \<Rightarrow> map_of d k | Some v \<Rightarrow> Some v)"
proof (induction items arbitrary: d)
  case Nil
  then show ?case by (simp add: dict_update_def)
next
  case (Cons kv items)
  obtain k' v' where kv: "kv = (k', v')" by (cases kv)
  from Cons.prems kv have d: "distinct (map fst items)" and notin: "k' \<notin> fst ` set items"
    by auto
  have rest: "map_of items k = None" if "k = k'"
    using that notin by (simp add: map_of_eq_None_iff)
  have "map_of (dict_update (dict_set k' v' d) items) k
          = (case map_of ((k', v') # items) k of None \<Rightarrow> map_of d k | Some v \<Rightarrow> Some v)"
    using rest by (simp add: Cons.IH [OF d] map_of_dict_set split: option.split)
  then show ?case
    by (simp only: kv dict_update_Cons)
qed

lemma set_assignee_fields:
  "truthy_str (p_assignee params) \<or> truthy_str (p_account_id params) \<Longrightarrow>
     map_of (p_fields (set_assignee params)) ''assignee'' = Some (assignee_entry params)"
  by (auto simp: set_assignee_def assignee_entry_def map_of_dict_set Let_def)

lemma set_assignee_distinct:
  "distinct (map fst (p_fields params)) \<Longrightarrow> distinct (map fst (p_fields (set_assignee params)))"
  by (simp add: set_assignee_def Let_def distinct_dict_set)

lemma create_data_assignee:
  assumes "distinct (map fst (p_fields params))"
    and "map_of (p_fields params) ''assignee'' = Some entry"
  shows "\<exists>fs. create_data params = JDict [(''fields'', JDict fs)]
            \<and> map_of fs ''assignee'' = Some entry"
proof -
  from assms(2) have ne: "p_fields params \<noteq> []" by auto
  show ?thesis
    using assms ne by (simp add: create_data_def Let_def map_of_dict_update)
qed

text \<open>
  Claim C6, amended. If an assignee that is not the empty string is supplied and no account
  identifier, the fields \<open>main\<close> hands to the handler hold \<open>assignee = {name: ...}\<close>;
  if an account identifier that is not the empty string is supplied, they hold
  \<open>assignee = {accountId: ...}\<close>; if both are supplied, the run is rejected by the
  host's check before dispatch and no request is sent.
\<close>

theorem assignee_resolution:
  "(p_assignee params = Some a \<and> a \<noteq> [] \<and> p_account_id params = None \<longrightarrow>
      map_of (p_fields (set_assignee params)) ''assignee'' = Some (JDict [(''name'', JStr a)]))
   \<and> (p_account_id params = Some i \<and> i \<noteq> [] \<longrightarrow>
      map_of (p_fields (set_assignee params)) ''assignee''
        = Some (JDict [(''accountId'', JStr i)]))
   \<and> (p_assignee params = Some a' \<and> p_account_id params = Some i' \<longrightarrow>
      main env params
        = (Failed ''parameters are mutually exclusive: assignee|account_id'', []))"
proof (intro conjI impI)
  assume "p_assignee params = Some a \<and> a \<noteq> [] \<and> p_account_id params = None"
  then show "map_of (p_fields (set_assignee params)) ''assignee''
               = Some (JDict [(''name'', JStr a)])"
    by (simp add: set_assignee_def truthy_str_def str_json_def map_of_dict_set Let_def)
next
  assume "p_account_id params = Some i \<and> i \<noteq> []"
  then show "map_of (p_fields (set_assignee params)) ''assignee''
               = Some (JDict [(''accountId'', JStr i)])"
    by (simp add: set_assignee_def truthy_str_def str_json_def map_of_dict_set Let_def)
next
  assume "p_assignee params = Some a' \<and> p_account_id params = Some i'"
  then have "AnsibleModule params
               = Inl (FailJson ''parameters are mutually exclusive: assignee|account_id'')"
    by (simp add: AnsibleModule_def mutually_exclusive_def supplied_def)
  then show "main env params
               = (Failed ''parameters are mutually exclusive: assignee|account_id'', [])"
    by (simp add: main_def)
qed

theorem assignee_resolution_witness:
  "(p_assignee alice_params = Some ''alice'' \<and> p_account_id alice_params = None
      \<and> map_of (p_fields (set_assignee alice_params)) ''assignee''
          = Some (JDict [(''name'', JStr ''alice'')]))
   \<and> (p_account_id account_params = Some ''123''
      \<and> map_of (p_fields (set_assignee account_params)) ''assignee''
          = Some (JDict [(''accountId'', JStr ''123'')]))
   \<and> (p_assignee both_params = Some ''alice'' \<and> p_account_id both_params = Some ''123''
      \<and> main (server 200 ''{}'') both_params
          = (Failed ''parameters are mutually exclusive: assignee|account_id'', []))"
proof -
  have a: "p_assignee alice_params = Some ''alice'' \<and> ''alice'' \<noteq> []
             \<and> p_account_id alice_params = None"
    by (simp add: alice_params_def bare_params_def)
  have b: "p_account_id account_params = Some ''123'' \<and> ''123'' \<noteq> []"
    by (simp add: account_params_def bare_params_def)
  have c: "p_assignee both_params = Some ''alice'' \<and> p_account_id both_params = Some ''123''"
    by (simp add: both_params_def bare_params_def)
  from a assignee_resolution [of alice_params "''alice''"]
  have "map_of (p_fields (set_assignee alice_params)) ''assignee''
          = Some (JDict [(''name'', JStr ''alice'')])"
    by blast
  moreover from b assignee_resolution [of account_params _ "''123''"]
  have "map_of (p_fields (set_assignee account_params)) ''assignee''
          = Some (JDict [(''accountId'', JStr ''123'')])"
    by blast
  moreover from c assignee_resolution [of both_params _ _ "''alice''" "''123''" "server 200 ''{}''"]
  have "main (server 200 ''{}'') both_params
          = (Failed ''parameters are mutually exclusive: assignee|account_id'', [])"
    by blast
  ultimately show ?thesis using a b c by blast
qed

text \<open>
  Claim C6 as stated fails for the empty string: \<open>main\<close> tests the truth value of the
  parameter, so an empty assignee is supplied and leaves no \<open>assignee\<close> field.
\<close>

theorem empty_assignee_counterexample:
  "p_assignee empty_assignee_params = Some []
   \<and> p_account_id empty_assignee_params = None
   \<and> map_of (p_fields (set_assignee empty_assignee_params)) ''assignee'' = None"
  by (simp add: empty_assignee_params_def bare_params_def set_assignee_def truthy_str_def)

text \<open>
  Claim C10, amended. When an assignee or an account identifier that is not the empty string
  is supplied, \<open>main\<close> writes the assignee entry into \<open>fields\<close> before it dispatches,
  and every body a handler builds from \<open>fields\<close> holds it: under \<open>fields\<close> for
  \<open>create\<close> and \<open>edit\<close>, and under the top-level key \<open>update\<close> for
  \<open>update\<close>, whose body has no key \<open>fields\<close>. The keys of \<open>fields\<close> are distinct,
  as those of a dict are.
\<close>

theorem assignee_reaches_bodies:
  assumes "truthy_str (p_assignee params) \<or> truthy_str (p_account_id params)"
    and "distinct (map fst (p_fields params))"
  shows "map_of (p_fields (set_assignee params)) ''assignee'' = Some (assignee_entry params)
    \<and> (\<exists>fs. create_data (set_assignee params) = JDict [(''fields'', JDict fs)]
             \<and> map_of fs ''assignee'' = Some (assignee_entry params))
    \<and> (\<exists>fs. edit_data (set_assignee params) = JDict [(''fields'', JDict fs)]
             \<and> map_of fs ''assignee'' = Some (assignee_entry params))
    \<and> (\<exists>fs. update_data (set_assignee params) = JDict [(''update'', JDict fs)]
             \<and> map_of fs ''assignee'' = Some (assignee_entry params))
    \<and> json_item (update_data (set_assignee params)) ''fields'' = Inl (KeyError ''fields'')"
proof -
  let ?p = "set_assignee params"
  have written: "map_of (p_fields ?p) ''assignee'' = Some (assignee_entry params)"
    using assms(1) by (rule set_assignee_fields)
  have dist: "distinct (map fst (p_fields ?p))"
    using assms(2) by (rule set_assignee_distinct)
  have "\<exists>fs. create_data ?p = JDict [(''fields'', JDict fs)]
             \<and> map_of fs ''assignee'' = Some (assignee_entry params)"
    using dist written by (rule create_data_assignee)
  moreover have "\<exists>fs. edit_data ?p = JDict [(''fields'', JDict fs)]
             \<and> map_of fs ''assignee'' = Some (assignee_entry params)"
    using written by (simp add: edit_data_def)
  moreover have "\<exists>fs. update_data ?p = JDict [(''update'', JDict fs)]
             \<and> map_of fs ''assignee'' = Some (assignee_entry params)"
    using written by (simp add: update_data_def)
  moreover have "json_item (update_data ?p) ''fields'' = Inl (KeyError ''fields'')"
    by (simp add: update_data_def json_item_def)
  ultimately show ?thesis using written by blast
qed

theorem assignee_reaches_bodies_witness:
  "truthy_str (p_assignee alice_params)
   \<and> distinct (map fst (p_fields alice_params))
   \<and> update_data (set_assignee alice_params)
     = JDict [(''update'', JDict [(''labels'', JList [JStr ''ansible'']),
                                  (''assignee'', JDict [(''name'', JStr ''alice'')])])]
   \<and> map_of (p_fields (set_assignee alice_params)) ''assignee''
     = Some (JDict [(''name'', JStr ''alice'')])
   \<and> (\<exists>fs. create_data (set_assignee alice_params) = JDict [(''fields'', JDict fs)]
             \<and> map_of fs ''assignee'' = Some (JDict [(''name'', JStr ''alice'')]))
   \<and> json_item (update_data (set_assignee alice_params)) ''fields''
     = Inl (KeyError ''fields'')"
proof -
  have h1: "truthy_str (p_assignee alice_params)"
    by (simp add: alice_params_def bare_params_def truthy_str_def)
  have h2: "distinct (map fst (p_fields alice_params))"
    by (simp add: alice_params_def bare_params_def)
  have e: "assignee_entry alice_params = JDict [(''name'', JStr ''alice'')]"
    by (simp add: assignee_entry_def alice_params_def bare_params_def truthy_str_def
        str_json_def)
  have u: "update_data (set_assignee alice_params)
     = JDict [(''update'', JDict [(''labels'', JList [JStr ''ansible'']),
                                  (''assignee'', JDict [(''name'', JStr ''alice'')])])]"
    by (simp add: update_data_def set_assignee_def alice_params_def bare_params_def
        truthy_str_def str_json_def dict_set_def Let_def)
  from h1 have "truthy_str (p_assignee alice_params) \<or> truthy_str (p_account_id alice_params)"
    by simp
  from assignee_reaches_bodies [OF this h2] e
  have "map_of (p_fields (set_assignee alice_params)) ''assignee''
          = Some (JDict [(''name'', JStr ''alice'')])
        \<and> (\<exists>fs. create_data (set_assignee alice_params) = JDict [(''fields'', JDict fs)]
             \<and> map_of fs ''assignee'' = Some (JDict [(''name'', JStr ''alice'')]))
        \<and> json_item (update_data (set_assignee alice_params)) ''fields''
          = Inl (KeyError ''fields'')"
    by simp
  with h1 h2 u show ?thesis by blast
qed

text \<open>
  Claim C10 as stated fails for the empty string: an empty account identifier is supplied
  and the body of \<open>update\<close> holds no assignee.
\<close>

theorem empty_account_id_counterexample:
  "p_account_id empty_account_params = Some []
   \<and> p_fields (set_assignee empty_account_params) = []
   \<and> update_data (set_assignee empty_account_params) = JDict [(''update'', JDict [])]"
  by (simp add: empty_account_params_def bare_params_def set_assignee_def truthy_str_def
      update_data_def)

end
